theory Spec2Isabelle
  imports Complex_Main
begin

section \<open>JavaScript numbers\<close>

text \<open>
  A JavaScript number is an IEEE 754 double: a finite value, one of the two infinities, or
  NaN. The model keeps a finite value as a real number. A result of an operation that lies
  beyond the largest double is an infinity, and NaN arises and propagates as in IEEE 754.
  Rounding to 53 bits, underflow and the sign of zero are not modelled: a finite result
  within range is exact.
\<close>

datatype num = Fin real | PInf | NInf | NaN

text \<open>\<open>Number.MAX_VALUE\<close>, the largest double.\<close>

definition MAX_VALUE :: real where
  "MAX_VALUE = (2 - 1 / 2 ^ 52) * 2 ^ 1023"

definition overflow :: "real \<Rightarrow> num" where
  "overflow r = (if r > MAX_VALUE then PInf else if r < - MAX_VALUE then NInf else Fin r)"

text \<open>The sign of a number that is not NaN, and the infinity (or NaN) of a sign.\<close>

fun signOf :: "num \<Rightarrow> real" where
  "signOf (Fin r) = sgn r"
| "signOf PInf = 1"
| "signOf NInf = - 1"
| "signOf NaN = 0"

definition infinityOf :: "real \<Rightarrow> num" where
  "infinityOf s = (if s = 0 then NaN else if s > 0 then PInf else NInf)"

fun num_neg :: "num \<Rightarrow> num" where
  "num_neg (Fin r) = Fin (- r)"
| "num_neg PInf = NInf"
| "num_neg NInf = PInf"
| "num_neg NaN = NaN"

fun num_add :: "num \<Rightarrow> num \<Rightarrow> num" where
  "num_add (Fin a) (Fin b) = overflow (a + b)"
| "num_add NaN b = NaN"
| "num_add a NaN = NaN"
| "num_add PInf NInf = NaN"
| "num_add NInf PInf = NaN"
| "num_add PInf b = PInf"
| "num_add a PInf = PInf"
| "num_add NInf b = NInf"
| "num_add a NInf = NInf"

fun num_mul :: "num \<Rightarrow> num \<Rightarrow> num" where
  "num_mul (Fin a) (Fin b) = overflow (a * b)"
| "num_mul NaN b = NaN"
| "num_mul a NaN = NaN"
| "num_mul a b = infinityOf (signOf a * signOf b)"

text \<open>Division. A zero divisor is taken as \<open>+0\<close>.\<close>

fun num_div :: "num \<Rightarrow> num \<Rightarrow> num" where
  "num_div (Fin a) (Fin b) = (if b = 0 then infinityOf (sgn a) else overflow (a / b))"
| "num_div NaN b = NaN"
| "num_div a NaN = NaN"
| "num_div (Fin a) b = Fin 0"
| "num_div a (Fin b) = infinityOf (signOf a * (if b < 0 then - 1 else 1))"
| "num_div a b = NaN"

text \<open>The comparisons \<open><=\<close> and \<open><\<close>: false when an operand is NaN.\<close>

fun num_le :: "num \<Rightarrow> num \<Rightarrow> bool" where
  "num_le (Fin a) (Fin b) = (a \<le> b)"
| "num_le NaN b = False"
| "num_le a NaN = False"
| "num_le NInf b = True"
| "num_le a PInf = True"
| "num_le a b = False"

fun num_lt :: "num \<Rightarrow> num \<Rightarrow> bool" where
  "num_lt (Fin a) (Fin b) = (a < b)"
| "num_lt NaN b = False"
| "num_lt a NaN = False"
| "num_lt PInf b = False"
| "num_lt a NInf = False"
| "num_lt a b = True"

instantiation num :: "{plus, minus, uminus, times, inverse, ord}"
begin

definition plus_num :: "num \<Rightarrow> num \<Rightarrow> num" where
  "plus_num a b = num_add a b"

definition uminus_num :: "num \<Rightarrow> num" where
  "uminus_num a = num_neg a"

definition minus_num :: "num \<Rightarrow> num \<Rightarrow> num" where
  "minus_num a b = num_add a (num_neg b)"

definition times_num :: "num \<Rightarrow> num \<Rightarrow> num" where
  "times_num a b = num_mul a b"

definition inverse_num :: "num \<Rightarrow> num" where
  "inverse_num a = num_div (Fin 1) a"

definition divide_num :: "num \<Rightarrow> num \<Rightarrow> num" where
  "divide_num a b = num_div a b"

definition less_eq_num :: "num \<Rightarrow> num \<Rightarrow> bool" where
  "less_eq_num a b = num_le a b"

definition less_num :: "num \<Rightarrow> num \<Rightarrow> bool" where
  "less_num a b = num_lt a b"

instance ..

end

text \<open>\<open>Math.sqrt\<close>, \<open>Math.abs\<close>, \<open>Math.max\<close>, \<open>Math.min\<close> and \<open>Math.acos\<close>. The last three
  return NaN when an argument is NaN.\<close>

fun Math_sqrt :: "num \<Rightarrow> num" where
  "Math_sqrt (Fin r) = (if r < 0 then NaN else Fin (sqrt r))"
| "Math_sqrt PInf = PInf"
| "Math_sqrt NInf = NaN"
| "Math_sqrt NaN = NaN"

fun Math_abs :: "num \<Rightarrow> num" where
  "Math_abs (Fin r) = Fin \<bar>r\<bar>"
| "Math_abs PInf = PInf"
| "Math_abs NInf = PInf"
| "Math_abs NaN = NaN"

definition Math_max :: "num \<Rightarrow> num \<Rightarrow> num" where
  "Math_max a b = (if a = NaN \<or> b = NaN then NaN else if a \<le> b then b else a)"

definition Math_min :: "num \<Rightarrow> num \<Rightarrow> num" where
  "Math_min a b = (if a = NaN \<or> b = NaN then NaN else if a \<le> b then a else b)"

fun Math_acos :: "num \<Rightarrow> num" where
  "Math_acos (Fin r) = (if - 1 \<le> r \<and> r \<le> 1 then Fin (arccos r) else NaN)"
| "Math_acos v = NaN"

text \<open>The truth value of a number in \<open>v || d\<close>: zero and NaN are false.\<close>

definition truthy :: "num \<Rightarrow> bool" where
  "truthy v \<longleftrightarrow> v \<noteq> Fin 0 \<and> v \<noteq> NaN"

section \<open>Pose comparison (src/pose-utils/comparePoses.ts)\<close>

text \<open>
  A shallow embedding of the pose comparator. An optional property of a landmark is an
  \<open>option\<close>, \<open>None\<close> when the property is absent or \<open>undefined\<close>; an array read \<open>xs[i]\<close>
  is \<open>elemAt xs i\<close>, which is \<open>None\<close> out of range, as the read is \<open>undefined\<close> there; an
  exception is a value of type \<open>error\<close>, and a function that can raise returns
  \<open>error + 'a\<close>. The calls of \<open>console.error\<close> in the two \<open>catch\<close> blocks write a log line
  and have no part in the result: they are left out.
\<close>

subsection \<open>Data model\<close>

record Landmark =
  x :: num
  y :: num
  z :: "num option"
  visibility :: "num option"

text \<open>The MediaPipe indices the comparator names.\<close>

definition NOSE :: nat where "NOSE = 0"
definition LEFT_SHOULDER :: nat where "LEFT_SHOULDER = 11"
definition RIGHT_SHOULDER :: nat where "RIGHT_SHOULDER = 12"
definition LEFT_ELBOW :: nat where "LEFT_ELBOW = 13"
definition RIGHT_ELBOW :: nat where "RIGHT_ELBOW = 14"
definition LEFT_WRIST :: nat where "LEFT_WRIST = 15"
definition RIGHT_WRIST :: nat where "RIGHT_WRIST = 16"
definition LEFT_HIP :: nat where "LEFT_HIP = 23"
definition RIGHT_HIP :: nat where "RIGHT_HIP = 24"
definition LEFT_KNEE :: nat where "LEFT_KNEE = 25"
definition RIGHT_KNEE :: nat where "RIGHT_KNEE = 26"
definition LEFT_ANKLE :: nat where "LEFT_ANKLE = 27"
definition RIGHT_ANKLE :: nat where "RIGHT_ANKLE = 28"

text \<open>
  \<open>ComparisonConfig\<close> is the caller's partial configuration. Each key is absent, present
  with the value \<open>undefined\<close> (which the type allows), or present with a value.
  \<open>RequiredConfig\<close> is the merged configuration that the functions read.
\<close>

datatype 'a property = Absent | Undefined | Present 'a

record ComparisonConfig =
  visibilityThreshold_opt :: "num property"
  distanceThreshold_opt :: "num property"
  similarityThreshold_opt :: "num property"
  useAngles_opt :: "bool property"
  angleWeight_opt :: "num property"
  perLimbNormalization_opt :: "bool property"
  angleOnly_opt :: "bool property"

record RequiredConfig =
  visibilityThreshold :: num
  distanceThreshold :: num
  similarityThreshold :: num
  useAngles :: bool
  angleWeight :: num
  perLimbNormalization :: bool
  angleOnly :: bool

datatype BodyRegion = upper | lower | left_arm | right_arm

record ComparisonResult =
  isMatching :: bool
  similarity :: num
  landmarksCompared :: nat
  validLandmarks :: nat
  meanDistance :: num
  comparedRegions :: "BodyRegion list"
  regionDistances :: "(BodyRegion \<rightharpoonup> num) option"

record NormalizedPose =
  landmarks :: "Landmark list"
  origin :: Landmark
  scale :: num
  visibleLandmarkIndices :: "nat list"

text \<open>
  The exceptions of the module: the two \<open>throw new Error(...)\<close> statements, and the
  TypeError of reading a property of \<open>undefined\<close>.
\<close>

datatype error = InvalidInput | NoVisibleLandmarks | TypeError

definition DEFAULT_CONFIG :: RequiredConfig where
  "DEFAULT_CONFIG = \<lparr>
     visibilityThreshold = Fin 0.5,
     distanceThreshold = Fin 0.5,
     similarityThreshold = Fin 0.5,
     useAngles = False,
     angleWeight = Fin 0.3,
     perLimbNormalization = False,
     angleOnly = False \<rparr>"

text \<open>\<open>v ?? d\<close>, for an optional property of a landmark.\<close>

definition orDefault :: "'a option \<Rightarrow> 'a \<Rightarrow> 'a" where
  "orDefault v d = (case v of None \<Rightarrow> d | Some a \<Rightarrow> a)"

text \<open>
  The spread \<open>{ ...DEFAULT_CONFIG, ...config }\<close>: a key that is present wins, also with
  the value \<open>undefined\<close>. The merged configuration only compares its numbers and
  multiplies by them, where \<open>undefined\<close> is converted to NaN, and only tests its
  booleans, where \<open>undefined\<close> is false: the merged record holds these values.
\<close>

definition mergeNumber :: "num property \<Rightarrow> num \<Rightarrow> num" where
  "mergeNumber p d = (case p of Absent \<Rightarrow> d | Undefined \<Rightarrow> NaN | Present v \<Rightarrow> v)"

definition mergeBoolean :: "bool property \<Rightarrow> bool \<Rightarrow> bool" where
  "mergeBoolean p d = (case p of Absent \<Rightarrow> d | Undefined \<Rightarrow> False | Present v \<Rightarrow> v)"

definition mergeConfig :: "ComparisonConfig option \<Rightarrow> RequiredConfig" where
  "mergeConfig config =
     (case config of
        None \<Rightarrow> DEFAULT_CONFIG
      | Some c \<Rightarrow> \<lparr>
          visibilityThreshold =
            mergeNumber (visibilityThreshold_opt c) (visibilityThreshold DEFAULT_CONFIG),
          distanceThreshold =
            mergeNumber (distanceThreshold_opt c) (distanceThreshold DEFAULT_CONFIG),
          similarityThreshold =
            mergeNumber (similarityThreshold_opt c) (similarityThreshold DEFAULT_CONFIG),
          useAngles = mergeBoolean (useAngles_opt c) (useAngles DEFAULT_CONFIG),
          angleWeight = mergeNumber (angleWeight_opt c) (angleWeight DEFAULT_CONFIG),
          perLimbNormalization =
            mergeBoolean (perLimbNormalization_opt c) (perLimbNormalization DEFAULT_CONFIG),
          angleOnly = mergeBoolean (angleOnly_opt c) (angleOnly DEFAULT_CONFIG) \<rparr>)"

subsection \<open>Geometry primitives\<close>

text \<open>\<open>xs[i]\<close>: the element, or \<open>undefined\<close> out of range.\<close>

definition elemAt :: "'a list \<Rightarrow> nat \<Rightarrow> 'a option" where
  "elemAt xs i = (if i < length xs then Some (xs ! i) else None)"

definition distance :: "Landmark \<Rightarrow> Landmark \<Rightarrow> num" where
  "distance a b =
     (let dx = x a - x b;
          dy = y a - y b;
          dz = orDefault (z a) (Fin 0) - orDefault (z b) (Fin 0)
      in Math_sqrt (dx * dx + dy * dy + dz * dz))"

definition midpoint :: "Landmark \<Rightarrow> Landmark \<Rightarrow> Landmark" where
  "midpoint a b = \<lparr>
     x = (x a + x b) / Fin 2,
     y = (y a + y b) / Fin 2,
     z = (case (z a, z b) of (Some za, Some zb) \<Rightarrow> Some ((za + zb) / Fin 2) | _ \<Rightarrow> None),
     visibility = None \<rparr>"

subsection \<open>Per-limb normalization\<close>

definition limbs :: "(nat \<times> nat \<times> string) list" where
  "limbs = [
     (LEFT_SHOULDER, LEFT_ELBOW, ''left_upper_arm''),
     (LEFT_ELBOW, LEFT_WRIST, ''left_forearm''),
     (RIGHT_SHOULDER, RIGHT_ELBOW, ''right_upper_arm''),
     (RIGHT_ELBOW, RIGHT_WRIST, ''right_forearm''),
     (LEFT_HIP, LEFT_KNEE, ''left_thigh''),
     (LEFT_KNEE, LEFT_ANKLE, ''left_calf''),
     (RIGHT_HIP, RIGHT_KNEE, ''right_thigh''),
     (RIGHT_KNEE, RIGHT_ANKLE, ''right_calf''),
     (LEFT_SHOULDER, LEFT_HIP, ''left_torso''),
     (RIGHT_SHOULDER, RIGHT_HIP, ''right_torso'')]"

text \<open>
  The first loop of \<open>normalizeLandmarksByLimbs\<close>: the map is keyed by the limb's start
  index, and a later limb with the same start index overwrites the earlier entry.
\<close>

fun limbLengthsLoop ::
  "Landmark list \<Rightarrow> (nat \<times> nat \<times> string) list \<Rightarrow> (nat \<rightharpoonup> num) \<Rightarrow> (nat \<rightharpoonup> num)" where
  "limbLengthsLoop lms [] limbLengths = limbLengths"
| "limbLengthsLoop lms ((startIdx, endIdx, name) # rest) limbLengths =
     (case (elemAt lms startIdx, elemAt lms endIdx) of
        (Some start, Some end) \<Rightarrow>
          limbLengthsLoop lms rest
            (limbLengths(startIdx \<mapsto> Math_max (distance start end) (Fin 0.01)))
      | _ \<Rightarrow> limbLengthsLoop lms rest limbLengths)"

text \<open>\<open>limbLengths.get(idx) || 1\<close>: an absent entry, a zero entry and a NaN entry give 1.\<close>

definition getOr1 :: "(nat \<rightharpoonup> num) \<Rightarrow> nat \<Rightarrow> num" where
  "getOr1 limbLengths idx =
     (case limbLengths idx of None \<Rightarrow> Fin 1 | Some l \<Rightarrow> if truthy l then l else Fin 1)"

definition normalizeLandmarksByLimbs :: "Landmark list \<Rightarrow> Landmark list" where
  "normalizeLandmarksByLimbs lms =
     (let limbLengths = limbLengthsLoop lms limbs Map.empty
      in map (\<lambda>(lm, idx).
           let limbLength = getOr1 limbLengths idx
           in \<lparr> x = x lm / limbLength,
                y = y lm / limbLength,
                z = (case z lm of None \<Rightarrow> None | Some lz \<Rightarrow> Some (lz / limbLength)),
                visibility = visibility lm \<rparr>)
         (zip lms [0..<length lms]))"

subsection \<open>Angle at a vertex\<close>

definition computeAngle :: "Landmark \<Rightarrow> Landmark \<Rightarrow> Landmark \<Rightarrow> num" where
  "computeAngle a b c =
     (let v1x = x a - x b; v1y = y a - y b;
          v2x = x c - x b; v2y = y c - y b;
          dot = v1x * v2x + v1y * v2y;
          mag1 = Math_sqrt (v1x * v1x + v1y * v1y);
          mag2 = Math_sqrt (v2x * v2x + v2y * v2y)
      in if mag1 = Fin 0 \<or> mag2 = Fin 0 then Fin 0
         else let cosAngle = dot / (mag1 * mag2);
                  clampedCosAngle = Math_max (Fin (- 1)) (Math_min (Fin 1) cosAngle)
              in Math_acos clampedCosAngle * (Fin 180 / Fin pi))"

subsection \<open>Visibility filter and region detector\<close>

definition isVisible :: "Landmark list \<Rightarrow> RequiredConfig \<Rightarrow> nat \<Rightarrow> bool" where
  "isVisible lms config idx \<longleftrightarrow>
     idx < length lms \<and>
     orDefault (visibility (lms ! idx)) (Fin 1) \<ge> visibilityThreshold config"

definition detectVisibleRegions :: "Landmark list \<Rightarrow> RequiredConfig \<Rightarrow> BodyRegion list" where
  "detectVisibleRegions lms config =
     (if isVisible lms config LEFT_SHOULDER \<or> isVisible lms config RIGHT_SHOULDER
      then [upper] else []) @
     (if isVisible lms config LEFT_HIP \<or> isVisible lms config RIGHT_HIP
      then [lower] else []) @
     (if isVisible lms config LEFT_SHOULDER \<and>
         (isVisible lms config LEFT_ELBOW \<or> isVisible lms config LEFT_WRIST)
      then [left_arm] else []) @
     (if isVisible lms config RIGHT_SHOULDER \<and>
         (isVisible lms config RIGHT_ELBOW \<or> isVisible lms config RIGHT_WRIST)
      then [right_arm] else [])"

definition filterVisibleLandmarks :: "Landmark list \<Rightarrow> RequiredConfig \<Rightarrow> nat list" where
  "filterVisibleLandmarks lms config =
     map snd
       (filter (\<lambda>(lm, idx). orDefault (visibility lm) (Fin 1) \<ge> visibilityThreshold config)
          (zip lms [0..<length lms]))"

subsection \<open>Pose normalizer\<close>

text \<open>\<open>lm && (lm.visibility ?? 1) > 0.3\<close>, for a landmark read from the array.\<close>

definition anchorOk :: "Landmark option \<Rightarrow> bool" where
  "anchorOk lm =
     (case lm of None \<Rightarrow> False | Some l \<Rightarrow> orDefault (visibility l) (Fin 1) > Fin 0.3)"

text \<open>\<open>visibleIndices.map(i => landmarksToNormalize[i])\<close>, and the two \<open>reduce\<close> calls
  that read \<open>lm.x\<close> and \<open>lm.y\<close>: reading a property of an absent element raises.\<close>

fun visibleLmsOf :: "Landmark list \<Rightarrow> nat list \<Rightarrow> error + Landmark list" where
  "visibleLmsOf lms [] = Inr []"
| "visibleLmsOf lms (i # rest) =
     (case elemAt lms i of
        None \<Rightarrow> Inl TypeError
      | Some lm \<Rightarrow>
          (case visibleLmsOf lms rest of Inl e \<Rightarrow> Inl e | Inr ls \<Rightarrow> Inr (lm # ls)))"

text \<open>Lines 282 to 307: the origin, by the chain hips, shoulders, nose, mean.\<close>

definition computeOrigin :: "Landmark list \<Rightarrow> nat list \<Rightarrow> error + Landmark" where
  "computeOrigin landmarksToNormalize visibleIndices =
     (let leftHip = elemAt landmarksToNormalize LEFT_HIP;
          rightHip = elemAt landmarksToNormalize RIGHT_HIP;
          leftShoulder = elemAt landmarksToNormalize LEFT_SHOULDER;
          rightShoulder = elemAt landmarksToNormalize RIGHT_SHOULDER;
          nose = elemAt landmarksToNormalize NOSE
      in if anchorOk leftHip \<and> anchorOk rightHip
         then Inr (midpoint (the leftHip) (the rightHip))
         else if anchorOk leftShoulder \<and> anchorOk rightShoulder
         then Inr (midpoint (the leftShoulder) (the rightShoulder))
         else if anchorOk nose
         then Inr (the nose)
         else (case visibleLmsOf landmarksToNormalize visibleIndices of
                 Inl e \<Rightarrow> Inl e
               | Inr visibleLms \<Rightarrow>
                   let avgX = foldl (\<lambda>sum lm. sum + x lm) (Fin 0) visibleLms
                                / Fin (real (length visibleLms));
                       avgY = foldl (\<lambda>sum lm. sum + y lm) (Fin 0) visibleLms
                                / Fin (real (length visibleLms))
                   in Inr \<lparr> x = avgX, y = avgY, z = None, visibility = None \<rparr>))"

text \<open>The index pairs \<open>(visibleIndices[i], visibleIndices[j])\<close> with \<open>i < j\<close>, in the
  order the nested loops of lines 334 to 339 visit them.\<close>

fun indexPairs :: "nat list \<Rightarrow> (nat \<times> nat) list" where
  "indexPairs [] = []"
| "indexPairs (i # rest) = map (\<lambda>j. (i, j)) rest @ indexPairs rest"

fun maxDistLoop :: "Landmark list \<Rightarrow> (nat \<times> nat) list \<Rightarrow> num \<Rightarrow> error + num" where
  "maxDistLoop lms [] maxDist = Inr maxDist"
| "maxDistLoop lms ((i, j) # rest) maxDist =
     (case (elemAt lms i, elemAt lms j) of
        (Some a, Some b) \<Rightarrow> maxDistLoop lms rest (Math_max maxDist (distance a b))
      | _ \<Rightarrow> Inl TypeError)"

text \<open>Lines 309 to 341: the scale, by the chain torso length, shoulder width, largest
  distance between visible landmarks.\<close>

definition computeScale :: "Landmark list \<Rightarrow> nat list \<Rightarrow> error + num" where
  "computeScale landmarksToNormalize visibleIndices =
     (let leftHip = elemAt landmarksToNormalize LEFT_HIP;
          rightHip = elemAt landmarksToNormalize RIGHT_HIP;
          leftShoulder = elemAt landmarksToNormalize LEFT_SHOULDER;
          rightShoulder = elemAt landmarksToNormalize RIGHT_SHOULDER
      in if anchorOk leftShoulder \<and> anchorOk rightShoulder \<and>
            anchorOk leftHip \<and> anchorOk rightHip
         then let shoulderCenter = midpoint (the leftShoulder) (the rightShoulder);
                  hipCenter = midpoint (the leftHip) (the rightHip)
              in Inr (Math_max (distance shoulderCenter hipCenter) (Fin 0.01))
         else if anchorOk leftShoulder \<and> anchorOk rightShoulder
         then Inr (Math_max (distance (the leftShoulder) (the rightShoulder)) (Fin 0.01))
         else maxDistLoop landmarksToNormalize (indexPairs visibleIndices) (Fin 0.01))"

definition normalizePose :: "Landmark list \<Rightarrow> RequiredConfig \<Rightarrow> error + NormalizedPose" where
  "normalizePose lms config =
     (let visibleIndices = filterVisibleLandmarks lms config
      in if length visibleIndices = 0 then Inl NoVisibleLandmarks
         else
           let landmarksToNormalize =
                 (if perLimbNormalization config then normalizeLandmarksByLimbs lms else lms)
           in (case computeOrigin landmarksToNormalize visibleIndices of
                 Inl e \<Rightarrow> Inl e
               | Inr origin' \<Rightarrow>
                   (case computeScale landmarksToNormalize visibleIndices of
                      Inl e \<Rightarrow> Inl e
                    | Inr scale' \<Rightarrow>
                        Inr \<lparr> landmarks =
                                map (\<lambda>lm. \<lparr> x = (x lm - x origin') / scale',
                                            y = (y lm - y origin') / scale',
                                            z = (case z lm of None \<Rightarrow> None
                                                 | Some lz \<Rightarrow> Some (lz / scale')),
                                            visibility = visibility lm \<rparr>)
                                  landmarksToNormalize,
                              origin = origin',
                              scale = scale',
                              visibleLandmarkIndices = visibleIndices \<rparr>)))"

subsection \<open>Feature extractors\<close>

text \<open>\<open>distance(targetPose.landmarks[idx], currentPose.landmarks[idx])\<close>.\<close>

definition distanceAt :: "NormalizedPose \<Rightarrow> NormalizedPose \<Rightarrow> nat \<Rightarrow> error + num" where
  "distanceAt targetPose currentPose idx =
     (case (elemAt (landmarks targetPose) idx, elemAt (landmarks currentPose) idx) of
        (Some a, Some b) \<Rightarrow> Inr (distance a b)
      | _ \<Rightarrow> Inl TypeError)"

fun distancesLoop :: "NormalizedPose \<Rightarrow> NormalizedPose \<Rightarrow> nat list \<Rightarrow> error + num list" where
  "distancesLoop targetPose currentPose [] = Inr []"
| "distancesLoop targetPose currentPose (idx # rest) =
     (case distanceAt targetPose currentPose idx of
        Inl e \<Rightarrow> Inl e
      | Inr d \<Rightarrow>
          (case distancesLoop targetPose currentPose rest of
             Inl e \<Rightarrow> Inl e
           | Inr ds \<Rightarrow> Inr (d # ds)))"

text \<open>The result \<open>{ distances, validCount }\<close> is the pair \<open>(distances, validCount)\<close>.\<close>

definition computeDistanceFeatures ::
  "NormalizedPose \<Rightarrow> NormalizedPose \<Rightarrow> error + (num list \<times> nat)" where
  "computeDistanceFeatures targetPose currentPose =
     (let commonIndices =
            filter (\<lambda>idx. idx \<in> set (visibleLandmarkIndices currentPose))
              (visibleLandmarkIndices targetPose)
      in case distancesLoop targetPose currentPose commonIndices of
           Inl e \<Rightarrow> Inl e
         | Inr distances \<Rightarrow> Inr (distances, length commonIndices))"

definition jointTriples :: "(nat \<times> nat \<times> nat) list" where
  "jointTriples = [
     (LEFT_SHOULDER, LEFT_ELBOW, LEFT_WRIST),
     (RIGHT_SHOULDER, RIGHT_ELBOW, RIGHT_WRIST),
     (LEFT_HIP, LEFT_KNEE, LEFT_ANKLE),
     (RIGHT_HIP, RIGHT_KNEE, RIGHT_ANKLE),
     (LEFT_SHOULDER, LEFT_HIP, LEFT_KNEE),
     (RIGHT_SHOULDER, RIGHT_HIP, RIGHT_KNEE)]"

text \<open>\<open>computeAngle(pose.landmarks[a], pose.landmarks[b], pose.landmarks[c])\<close>.\<close>

definition angleAt :: "NormalizedPose \<Rightarrow> nat \<Rightarrow> nat \<Rightarrow> nat \<Rightarrow> error + num" where
  "angleAt pose a b c =
     (case (elemAt (landmarks pose) a, elemAt (landmarks pose) b, elemAt (landmarks pose) c) of
        (Some la, Some lb, Some lc) \<Rightarrow> Inr (computeAngle la lb lc)
      | _ \<Rightarrow> Inl TypeError)"

definition tripleVisible :: "NormalizedPose \<Rightarrow> nat \<Rightarrow> nat \<Rightarrow> nat \<Rightarrow> bool" where
  "tripleVisible pose a b c \<longleftrightarrow>
     a \<in> set (visibleLandmarkIndices pose) \<and>
     b \<in> set (visibleLandmarkIndices pose) \<and>
     c \<in> set (visibleLandmarkIndices pose)"

fun anglesLoop ::
  "NormalizedPose \<Rightarrow> NormalizedPose \<Rightarrow> (nat \<times> nat \<times> nat) list \<Rightarrow> error + num list" where
  "anglesLoop targetPose currentPose [] = Inr []"
| "anglesLoop targetPose currentPose ((a, b, c) # rest) =
     (if tripleVisible targetPose a b c \<and> tripleVisible currentPose a b c
      then (case (angleAt targetPose a b c, angleAt currentPose a b c) of
              (Inr targetAngle, Inr currentAngle) \<Rightarrow>
                (let angleDiff = Math_abs (targetAngle - currentAngle)
                 in case anglesLoop targetPose currentPose rest of
                      Inl e \<Rightarrow> Inl e
                    | Inr as \<Rightarrow>
                        Inr (Math_min angleDiff (Fin 180 - angleDiff) / Fin 180 # as))
            | _ \<Rightarrow> Inl TypeError)
      else anglesLoop targetPose currentPose rest)"

text \<open>The result \<open>{ angles, validCount }\<close> is the pair \<open>(angles, validCount)\<close>.\<close>

definition computeAngleFeatures ::
  "NormalizedPose \<Rightarrow> NormalizedPose \<Rightarrow> error + (num list \<times> nat)" where
  "computeAngleFeatures targetPose currentPose =
     (case anglesLoop targetPose currentPose jointTriples of
        Inl e \<Rightarrow> Inl e
      | Inr angles \<Rightarrow> Inr (angles, length angles))"

subsection \<open>Comparator\<close>

text \<open>\<open>xs.reduce((a, b) => a + b, 0) / xs.length\<close>.\<close>

definition meanOf :: "num list \<Rightarrow> num" where
  "meanOf xs = foldl (\<lambda>a b. a + b) (Fin 0) xs / Fin (real (length xs))"

text \<open>The result that the empty feature sets and the two \<open>catch\<close> blocks return.\<close>

definition degenerateResult :: ComparisonResult where
  "degenerateResult = \<lparr>
     isMatching = False,
     similarity = Fin 0,
     landmarksCompared = 0,
     validLandmarks = 0,
     meanDistance = Fin 1,
     comparedRegions = [],
     regionDistances = None \<rparr>"

text \<open>The body of the \<open>try\<close> block of \<open>compareAnglesOnly\<close>.\<close>

definition compareAnglesOnly_try ::
  "Landmark list \<Rightarrow> Landmark list \<Rightarrow> RequiredConfig \<Rightarrow> error + ComparisonResult" where
  "compareAnglesOnly_try targetLandmarks currentLandmarks config =
     (case normalizePose targetLandmarks config of
        Inl e \<Rightarrow> Inl e
      | Inr targetPose \<Rightarrow>
     (case normalizePose currentLandmarks config of
        Inl e \<Rightarrow> Inl e
      | Inr currentPose \<Rightarrow>
     (case computeAngleFeatures targetPose currentPose of
        Inl e \<Rightarrow> Inl e
      | Inr (angles, validCount) \<Rightarrow>
          if validCount = 0 then Inr degenerateResult
          else
            let meanAngleDiff = meanOf angles;
                similarity' = Fin 1 - meanAngleDiff;
                targetRegions = detectVisibleRegions (landmarks targetPose) config;
                currentRegions = detectVisibleRegions (landmarks currentPose) config;
                comparedRegions' = filter (\<lambda>r. r \<in> set currentRegions) targetRegions
            in Inr \<lparr> isMatching = similarity' \<ge> similarityThreshold config,
                     similarity = Math_max (Fin 0) (Math_min (Fin 1) similarity'),
                     landmarksCompared = validCount,
                     validLandmarks = validCount,
                     meanDistance = meanAngleDiff,
                     comparedRegions = comparedRegions',
                     regionDistances = None \<rparr>)))"

text \<open>\<open>try { ... } catch (error) { console.error(...); return { ... } }\<close>.\<close>

definition compareAnglesOnly ::
  "Landmark list \<Rightarrow> Landmark list \<Rightarrow> RequiredConfig \<Rightarrow> ComparisonResult" where
  "compareAnglesOnly targetLandmarks currentLandmarks config =
     (case compareAnglesOnly_try targetLandmarks currentLandmarks config of
        Inl e \<Rightarrow> degenerateResult
      | Inr r \<Rightarrow> r)"

definition regionIndices :: "BodyRegion \<Rightarrow> nat list" where
  "regionIndices region =
     (case region of
        upper \<Rightarrow> [LEFT_SHOULDER, RIGHT_SHOULDER, LEFT_ELBOW, RIGHT_ELBOW]
      | lower \<Rightarrow> [LEFT_HIP, RIGHT_HIP, LEFT_KNEE, RIGHT_KNEE, LEFT_ANKLE, RIGHT_ANKLE]
      | left_arm \<Rightarrow> [LEFT_SHOULDER, LEFT_ELBOW, LEFT_WRIST]
      | right_arm \<Rightarrow> [RIGHT_SHOULDER, RIGHT_ELBOW, RIGHT_WRIST])"

text \<open>Lines 601 to 609: the distances of one region's mutually visible joints.\<close>

fun regionValsLoop :: "NormalizedPose \<Rightarrow> NormalizedPose \<Rightarrow> nat list \<Rightarrow> error + num list" where
  "regionValsLoop targetPose currentPose [] = Inr []"
| "regionValsLoop targetPose currentPose (idx # rest) =
     (if idx \<in> set (visibleLandmarkIndices targetPose) \<and>
         idx \<in> set (visibleLandmarkIndices currentPose)
      then (case distanceAt targetPose currentPose idx of
              Inl e \<Rightarrow> Inl e
            | Inr d \<Rightarrow>
                (case regionValsLoop targetPose currentPose rest of
                   Inl e \<Rightarrow> Inl e
                 | Inr ds \<Rightarrow> Inr (d # ds)))
      else regionValsLoop targetPose currentPose rest)"

text \<open>Lines 597 to 615: one entry for each compared region with at least one value.\<close>

fun regionDistancesLoop ::
  "NormalizedPose \<Rightarrow> NormalizedPose \<Rightarrow> BodyRegion list \<Rightarrow> (BodyRegion \<rightharpoonup> num)
     \<Rightarrow> error + (BodyRegion \<rightharpoonup> num)" where
  "regionDistancesLoop targetPose currentPose [] rd = Inr rd"
| "regionDistancesLoop targetPose currentPose (region # rest) rd =
     (case regionValsLoop targetPose currentPose (regionIndices region) of
        Inl e \<Rightarrow> Inl e
      | Inr regionDistances_vals \<Rightarrow>
          regionDistancesLoop targetPose currentPose rest
            (if length regionDistances_vals > 0
             then rd(region \<mapsto> meanOf regionDistances_vals)
             else rd))"

text \<open>Lines 546 to 559: the distance score, blended with the angle score on request.\<close>

definition blendAngles ::
  "NormalizedPose \<Rightarrow> NormalizedPose \<Rightarrow> RequiredConfig \<Rightarrow> num \<Rightarrow> error + num" where
  "blendAngles targetPose currentPose finalConfig meanDistance' =
     (let similarity' = Math_max (Fin 0) (Fin 1 - meanDistance')
      in if useAngles finalConfig
         then (case computeAngleFeatures targetPose currentPose of
                 Inl e \<Rightarrow> Inl e
               | Inr (angles, validCount) \<Rightarrow>
                   if validCount > 0
                   then let meanAngleDiff = meanOf angles;
                            angleSimilarity = Fin 1 - meanAngleDiff
                        in Inr (similarity' * (Fin 1 - angleWeight finalConfig) +
                                angleSimilarity * angleWeight finalConfig)
                   else Inr similarity')
         else Inr similarity')"

text \<open>The body of the \<open>try\<close> block of \<open>comparePoses\<close>.\<close>

definition comparePoses_try ::
  "Landmark list \<Rightarrow> Landmark list \<Rightarrow> RequiredConfig \<Rightarrow> error + ComparisonResult" where
  "comparePoses_try targetLandmarks currentLandmarks finalConfig =
     (if angleOnly finalConfig
      then Inr (compareAnglesOnly targetLandmarks currentLandmarks finalConfig)
      else
     (case normalizePose targetLandmarks finalConfig of
        Inl e \<Rightarrow> Inl e
      | Inr targetPose \<Rightarrow>
     (case normalizePose currentLandmarks finalConfig of
        Inl e \<Rightarrow> Inl e
      | Inr currentPose \<Rightarrow>
     (case computeDistanceFeatures targetPose currentPose of
        Inl e \<Rightarrow> Inl e
      | Inr (distances, validCount) \<Rightarrow>
          if validCount = 0 then Inr degenerateResult
          else
            let meanDistance' = meanOf distances
            in (case blendAngles targetPose currentPose finalConfig meanDistance' of
                  Inl e \<Rightarrow> Inl e
                | Inr similarity' \<Rightarrow>
                    let targetRegions = detectVisibleRegions (landmarks targetPose) finalConfig;
                        currentRegions = detectVisibleRegions (landmarks currentPose) finalConfig;
                        comparedRegions' = filter (\<lambda>r. r \<in> set currentRegions) targetRegions
                    in (case regionDistancesLoop targetPose currentPose comparedRegions'
                               Map.empty of
                          Inl e \<Rightarrow> Inl e
                        | Inr regionDistances' \<Rightarrow>
                            Inr \<lparr> isMatching = similarity' \<ge> similarityThreshold finalConfig,
                                  similarity = Math_max (Fin 0) (Math_min (Fin 1) similarity'),
                                  landmarksCompared =
                                    length (visibleLandmarkIndices targetPose),
                                  validLandmarks = validCount,
                                  meanDistance = meanDistance',
                                  comparedRegions = comparedRegions',
                                  regionDistances = Some regionDistances' \<rparr>))))))"

text \<open>
  \<open>comparePoses\<close>: the empty-input check raises before the \<open>try\<close> block; whatever is
  raised inside it is caught and answered with the degenerate result.
\<close>

definition comparePoses ::
  "Landmark list \<Rightarrow> Landmark list \<Rightarrow> ComparisonConfig option \<Rightarrow> error + ComparisonResult" where
  "comparePoses targetLandmarks currentLandmarks config =
     (let finalConfig = mergeConfig config
      in if length targetLandmarks = 0 \<or> length currentLandmarks = 0
         then Inl InvalidInput
         else (case comparePoses_try targetLandmarks currentLandmarks finalConfig of
                 Inl e \<Rightarrow> Inr degenerateResult
               | Inr r \<Rightarrow> Inr r))"

subsection \<open>Example poses\<close>

text \<open>A joint without depth, of the given planar position and visibility.\<close>

definition joint :: "real \<Rightarrow> real \<Rightarrow> real \<Rightarrow> Landmark" where
  "joint a b v = \<lparr>x = Fin a, y = Fin b, z = None, visibility = Some (Fin v)\<rparr>"

text \<open>Scenario A of the specification: 33 visible joints at (0.5, 0.5), but for the
  shoulders at (0.4, 0.3) and (0.6, 0.3) and the hips at (0.4, 0.6) and (0.6, 0.6).\<close>

definition scenarioA :: "Landmark list" where
  "scenarioA = (replicate 33 (joint 0.5 0.5 1))
     [LEFT_SHOULDER := joint 0.4 0.3 1, RIGHT_SHOULDER := joint 0.6 0.3 1,
      LEFT_HIP := joint 0.4 0.6 1, RIGHT_HIP := joint 0.6 0.6 1]"

text \<open>33 visible joints, and the same pose with its last joint hidden.\<close>

definition allVisible :: "Landmark list" where
  "allVisible = replicate 33 (joint 0.5 0.5 1)"

definition lastHidden :: "Landmark list" where
  "lastHidden = replicate 32 (joint 0.5 0.5 1) @ [joint 0.5 0.5 0]"

text \<open>The pose with every joint at the origin, but for the left wrist at (2, 0).\<close>

definition wristOut :: "Landmark list" where
  "wristOut = (replicate 33 (joint 0 0 1))[LEFT_WRIST := joint 2 0 1]"

text \<open>A coordinate that is a finite double and whose square is not.\<close>

definition FAR :: real where
  "FAR = 10 ^ 200"

text \<open>The pose with every joint at the origin, but for the shoulders at (0, 1) and the
  left knee at \<open>(FAR, 0)\<close>.\<close>

definition kneeFar :: "Landmark list" where
  "kneeFar = (replicate 33 (joint 0 0 1))
     [LEFT_SHOULDER := joint 0 1 1, RIGHT_SHOULDER := joint 0 1 1,
      LEFT_KNEE := joint FAR 0 1]"

text \<open>What \<open>normalizePose\<close> makes of \<open>kneeFar\<close>: the origin is the middle of the hips and
  the scale the length of the torso, so that the joints stay where they are.\<close>

definition kneeFarPose :: NormalizedPose where
  "kneeFarPose = \<lparr>landmarks = kneeFar,
        origin = \<lparr>x = Fin 0, y = Fin 0, z = None, visibility = None\<rparr>,
        scale = Fin 1,
        visibleLandmarkIndices = [0..<33]\<rparr>"

text \<open>The configuration \<open>{ angleOnly: true }\<close> of the module's usage example.\<close>

definition angleOnlyConfig :: ComparisonConfig where
  "angleOnlyConfig = \<lparr>
     visibilityThreshold_opt = Absent, distanceThreshold_opt = Absent,
     similarityThreshold_opt = Absent, useAngles_opt = Absent, angleWeight_opt = Absent,
     perLimbNormalization_opt = Absent, angleOnly_opt = Present True \<rparr>"

subsection \<open>Coordinates within a bound\<close>

text \<open>A number that is finite and of magnitude at most \<open>b\<close>; a joint whose coordinates
  (the depth too, when it has one) are such numbers.\<close>

definition finiteWithin :: "real \<Rightarrow> num \<Rightarrow> bool" where
  "finiteWithin b v = (case v of Fin r \<Rightarrow> \<bar>r\<bar> \<le> b | _ \<Rightarrow> False)"

definition jointWithin :: "real \<Rightarrow> Landmark \<Rightarrow> bool" where
  "jointWithin b l \<longleftrightarrow>
     finiteWithin b (x l) \<and> finiteWithin b (y l) \<and>
     (case z l of None \<Rightarrow> True | Some v \<Rightarrow> finiteWithin b v)"

section \<open>Verification\<close>

lemmas PoseLandmarkIndex_defs =
  NOSE_def LEFT_SHOULDER_def RIGHT_SHOULDER_def LEFT_ELBOW_def RIGHT_ELBOW_def
  LEFT_WRIST_def RIGHT_WRIST_def LEFT_HIP_def RIGHT_HIP_def LEFT_KNEE_def
  RIGHT_KNEE_def LEFT_ANKLE_def RIGHT_ANKLE_def

subsection \<open>Arithmetic on finite numbers\<close>

lemmas num_ops [simp] =
  plus_num_def minus_num_def uminus_num_def times_num_def divide_num_def
  less_eq_num_def less_num_def

lemma overflow_Fin: "\<bar>r\<bar> \<le> MAX_VALUE \<Longrightarrow> overflow r = Fin r"
  by (auto simp: overflow_def)

lemma MAX_VALUE_large: "10 ^ 308 \<le> MAX_VALUE"
  by (simp add: MAX_VALUE_def)

lemma MAX_VALUE_less: "MAX_VALUE < 10 ^ 309"
  by (simp add: MAX_VALUE_def)

lemma overflow_PInf: "MAX_VALUE < r \<Longrightarrow> overflow r = PInf"
  by (simp add: overflow_def)

lemma overflow_small [simp]: "\<bar>r\<bar> \<le> 1000000 \<Longrightarrow> overflow r = Fin r"
proof (rule overflow_Fin)
  assume "\<bar>r\<bar> \<le> 1000000"
  moreover have "(1000000 :: real) = 10 ^ 6" by simp
  moreover have "(10 :: real) ^ 6 \<le> 10 ^ 308" by (rule power_increasing) simp_all
  ultimately show "\<bar>r\<bar> \<le> MAX_VALUE" using MAX_VALUE_large by linarith
qed

lemma FAR_facts:
  "0 < FAR" "FAR \<noteq> 0" "overflow FAR = Fin FAR" "overflow (- FAR) = Fin (- FAR)"
  "overflow (FAR * FAR) = PInf"
proof -
  have pos: "0 < FAR" unfolding FAR_def by (rule zero_less_power) simp
  then show "0 < FAR" "FAR \<noteq> 0" by simp_all
  have "FAR \<le> 10 ^ 308" unfolding FAR_def by (rule power_increasing) simp_all
  with pos have "\<bar>FAR\<bar> \<le> MAX_VALUE" "\<bar>- FAR\<bar> \<le> MAX_VALUE"
    using MAX_VALUE_large by linarith+
  then show "overflow FAR = Fin FAR" "overflow (- FAR) = Fin (- FAR)"
    by (simp_all only: overflow_Fin)
  have "FAR * FAR = 10 ^ (200 + 200)" unfolding FAR_def by (rule power_add [symmetric])
  moreover have "(10 :: real) ^ 309 \<le> 10 ^ (200 + 200)" by (rule power_increasing) simp_all
  ultimately have "MAX_VALUE < FAR * FAR" using MAX_VALUE_less by linarith
  then show "overflow (FAR * FAR) = PInf" by (rule overflow_PInf)
qed

lemma degrees_small: "\<bar>180 / pi\<bar> \<le> 1000000"
proof -
  have "180 / pi \<le> 180 / 2" using pi_ge_two by (intro divide_left_mono) simp_all
  moreover have "0 \<le> 180 / pi" by simp
  ultimately show ?thesis by simp
qed

subsection \<open>Array reads and the visibility filter\<close>

lemma elemAt_Some [simp]: "i < length xs \<Longrightarrow> elemAt xs i = Some (xs ! i)"
  by (simp add: elemAt_def)

lemma elemAt_None [simp]: "\<not> i < length xs \<Longrightarrow> elemAt xs i = None"
  by (simp add: elemAt_def)

lemma elemAt_map: "elemAt (map f xs) i = map_option f (elemAt xs i)"
  by (simp add: elemAt_def)

lemma zip_indices: "zip xs [0..<length xs] = map (\<lambda>i. (xs ! i, i)) [0..<length xs]"
  by (intro nth_equalityI) simp_all

lemma filterVisibleLandmarks_eq:
  "filterVisibleLandmarks lms config =
   filter (\<lambda>i. visibilityThreshold config \<le> orDefault (visibility (lms ! i)) (Fin 1)) [0..<length lms]"
  by (simp add: filterVisibleLandmarks_def zip_indices filter_map comp_def)

lemma filterVisibleLandmarks_iff:
  "i \<in> set (filterVisibleLandmarks lms config) \<longleftrightarrow>
   i < length lms \<and> visibilityThreshold config \<le> orDefault (visibility (lms ! i)) (Fin 1)"
  by (auto simp: filterVisibleLandmarks_eq)

lemma filterVisibleLandmarks_bound:
  "i \<in> set (filterVisibleLandmarks lms config) \<Longrightarrow> i < length lms"
  by (simp add: filterVisibleLandmarks_iff)

lemma filterVisibleLandmarks_empty:
  assumes h: "\<forall>l \<in> set lms. \<not> visibilityThreshold config \<le> orDefault (visibility l) (Fin 1)"
  shows "filterVisibleLandmarks lms config = []"
  using h by (simp add: filterVisibleLandmarks_eq filter_empty_conv)

lemma normalizePose_no_visible:
  "filterVisibleLandmarks lms config = [] \<Longrightarrow> normalizePose lms config = Inl NoVisibleLandmarks"
  by (simp add: normalizePose_def)

lemma comparePoses_try_no_visible_live:
  "\<not> angleOnly config \<Longrightarrow> filterVisibleLandmarks c config = [] \<Longrightarrow>
   \<exists>e. comparePoses_try t c config = Inl e"
  by (simp add: comparePoses_try_def normalizePose_no_visible split: sum.splits)

lemma comparePoses_no_visible_live:
  "t \<noteq> [] \<Longrightarrow> c \<noteq> [] \<Longrightarrow> \<not> angleOnly (mergeConfig config) \<Longrightarrow>
   filterVisibleLandmarks c (mergeConfig config) = [] \<Longrightarrow>
   comparePoses t c config = Inr degenerateResult"
  using comparePoses_try_no_visible_live [of "mergeConfig config" c t]
  by (auto simp: comparePoses_def Let_def)

lemma mergeConfig_None [simp]: "mergeConfig None = DEFAULT_CONFIG"
  by (simp add: mergeConfig_def)

subsection \<open>Total occlusion of the live pose\<close>

text \<open>
  Claim C7. Under the default configuration, when the reference pose is not empty and every
  joint of the (non-empty) live pose has visibility 0, \<open>comparePoses\<close> returns a result
  (it does not raise) with similarity 0, \<open>isMatching\<close> false, \<open>validLandmarks\<close> 0 and no
  compared region.
\<close>

theorem total_occlusion:
  assumes "t \<noteq> []" and "c \<noteq> []" and "\<forall>l \<in> set c. visibility l = Some (Fin 0)"
  shows "\<exists>r. comparePoses t c None = Inr r \<and> similarity r = Fin 0 \<and> \<not> isMatching r \<and>
             validLandmarks r = 0 \<and> comparedRegions r = []"
proof -
  have "filterVisibleLandmarks c (mergeConfig None) = []"
    using assms(3)
    by (intro filterVisibleLandmarks_empty) (simp add: DEFAULT_CONFIG_def orDefault_def)
  moreover have "\<not> angleOnly (mergeConfig None)"
    by (simp add: DEFAULT_CONFIG_def)
  ultimately have "comparePoses t c None = Inr degenerateResult"
    using assms(1,2) by (intro comparePoses_no_visible_live)
  then show ?thesis
    by (simp add: degenerateResult_def)
qed

theorem total_occlusion_witness:
  "\<exists>r. comparePoses allVisible (replicate 33 (joint 0.5 0.5 0)) None = Inr r \<and>
        similarity r = Fin 0 \<and> \<not> isMatching r \<and> validLandmarks r = 0 \<and> comparedRegions r = []"
  using total_occlusion [of allVisible "replicate 33 (joint 0.5 0.5 0)"]
  by (simp add: allVisible_def joint_def)

subsection \<open>The normalizer and the loops return on indices that passed the filter\<close>

lemma visibleLmsOf_ok:
  "\<forall>i \<in> set idxs. i < length lms \<Longrightarrow> visibleLmsOf lms idxs = Inr (map (\<lambda>i. lms ! i) idxs)"
  by (induction idxs) auto

lemma indexPairs_set: "(i, j) \<in> set (indexPairs idxs) \<Longrightarrow> i \<in> set idxs \<and> j \<in> set idxs"
  by (induction idxs) auto

lemma maxDistLoop_ok:
  "\<forall>(i, j) \<in> set ps. i < length lms \<and> j < length lms \<Longrightarrow>
   \<exists>m'. maxDistLoop lms ps m = Inr m'"
proof (induction ps arbitrary: m)
  case Nil
  then show ?case by simp
next
  case (Cons p ps)
  obtain i j where p: "p = (i, j)" by (cases p)
  from Cons.prems p have ij: "i < length lms" "j < length lms" by auto
  from Cons.prems have "\<forall>(i, j) \<in> set ps. i < length lms \<and> j < length lms" by simp
  from Cons.IH [OF this, of "Math_max m (distance (lms ! i) (lms ! j))"]
  show ?case using p ij by simp
qed

lemma computeOrigin_ok:
  "\<forall>i \<in> set vis. i < length lms \<Longrightarrow> \<exists>og. computeOrigin lms vis = Inr og"
  by (simp add: computeOrigin_def Let_def visibleLmsOf_ok)

lemma computeScale_ok:
  assumes "\<forall>i \<in> set vis. i < length lms"
  shows "\<exists>s. computeScale lms vis = Inr s"
proof -
  have "\<forall>(i, j) \<in> set (indexPairs vis). i < length lms \<and> j < length lms"
    using assms indexPairs_set by blast
  from maxDistLoop_ok [OF this, of "Fin 0.01"] show ?thesis
    by (auto simp: computeScale_def Let_def)
qed

lemma length_normalizeLandmarksByLimbs [simp]:
  "length (normalizeLandmarksByLimbs lms) = length lms"
  by (simp add: normalizeLandmarksByLimbs_def Let_def)

lemma visibility_normalizeLandmarksByLimbs:
  "i < length lms \<Longrightarrow> visibility (normalizeLandmarksByLimbs lms ! i) = visibility (lms ! i)"
  by (simp add: normalizeLandmarksByLimbs_def Let_def)

lemma normalizePose_Inr:
  assumes "normalizePose lms config = Inr np"
  shows "visibleLandmarkIndices np = filterVisibleLandmarks lms config"
    and "length (landmarks np) = length lms"
    and "i < length lms \<Longrightarrow> visibility (landmarks np ! i) = visibility (lms ! i)"
  using assms
  by (auto simp: normalizePose_def Let_def visibility_normalizeLandmarksByLimbs
      split: if_splits sum.splits)

lemma normalizePose_ok:
  assumes "filterVisibleLandmarks lms config \<noteq> []"
  shows "\<exists>np. normalizePose lms config = Inr np"
proof -
  let ?l = "if perLimbNormalization config then normalizeLandmarksByLimbs lms else lms"
  have b: "\<forall>i \<in> set (filterVisibleLandmarks lms config). i < length ?l"
    by (simp add: filterVisibleLandmarks_bound)
  obtain og where "computeOrigin ?l (filterVisibleLandmarks lms config) = Inr og"
    using computeOrigin_ok [OF b] by blast
  moreover obtain s where "computeScale ?l (filterVisibleLandmarks lms config) = Inr s"
    using computeScale_ok [OF b] by blast
  ultimately show ?thesis
    using assms by (simp add: normalizePose_def Let_def)
qed

lemma normalizePose_bound:
  "normalizePose lms config = Inr np \<Longrightarrow> i \<in> set (visibleLandmarkIndices np) \<Longrightarrow>
   i < length (landmarks np)"
  by (simp add: normalizePose_Inr filterVisibleLandmarks_bound)

lemma distancesLoop_ok:
  "\<forall>i \<in> set idxs. i < length (landmarks tp) \<and> i < length (landmarks cp) \<Longrightarrow>
   distancesLoop tp cp idxs =
   Inr (map (\<lambda>i. distance (landmarks tp ! i) (landmarks cp ! i)) idxs)"
  by (induction idxs) (auto simp: distanceAt_def)

lemma regionValsLoop_ok:
  "\<forall>i \<in> set (visibleLandmarkIndices tp). i < length (landmarks tp) \<Longrightarrow>
   \<forall>i \<in> set (visibleLandmarkIndices cp). i < length (landmarks cp) \<Longrightarrow>
   \<exists>vs. regionValsLoop tp cp idxs = Inr vs"
  by (induction idxs) (auto simp: distanceAt_def)

lemma regionDistancesLoop_ok:
  "\<forall>i \<in> set (visibleLandmarkIndices tp). i < length (landmarks tp) \<Longrightarrow>
   \<forall>i \<in> set (visibleLandmarkIndices cp). i < length (landmarks cp) \<Longrightarrow>
   \<exists>rd'. regionDistancesLoop tp cp regions rd = Inr rd'"
proof (induction regions arbitrary: rd)
  case Nil
  then show ?case by simp
next
  case (Cons r regions)
  obtain vs where "regionValsLoop tp cp (regionIndices r) = Inr vs"
    using regionValsLoop_ok [OF Cons.prems] by blast
  then show ?case using Cons.IH [OF Cons.prems] by simp
qed

subsection \<open>The option \<open>distanceThreshold\<close> is never read\<close>

lemma filterVisibleLandmarks_distanceThreshold:
  "filterVisibleLandmarks lms (config\<lparr>distanceThreshold := d\<rparr>) =
   filterVisibleLandmarks lms config"
  by (simp add: filterVisibleLandmarks_def)

lemma detectVisibleRegions_distanceThreshold:
  "detectVisibleRegions lms (config\<lparr>distanceThreshold := d\<rparr>) =
   detectVisibleRegions lms config"
  by (simp add: detectVisibleRegions_def isVisible_def)

lemma normalizePose_distanceThreshold:
  "normalizePose lms (config\<lparr>distanceThreshold := d\<rparr>) = normalizePose lms config"
  by (simp add: normalizePose_def filterVisibleLandmarks_distanceThreshold)

lemma compareAnglesOnly_distanceThreshold:
  "compareAnglesOnly t c (config\<lparr>distanceThreshold := d\<rparr>) = compareAnglesOnly t c config"
  by (simp add: compareAnglesOnly_def compareAnglesOnly_try_def Let_def
      normalizePose_distanceThreshold detectVisibleRegions_distanceThreshold
      split: sum.splits prod.splits)

lemma blendAngles_distanceThreshold:
  "blendAngles tp cp (config\<lparr>distanceThreshold := d\<rparr>) m = blendAngles tp cp config m"
  by (simp add: blendAngles_def Let_def split: sum.splits prod.splits)

lemma comparePoses_try_distanceThreshold:
  "comparePoses_try t c (config\<lparr>distanceThreshold := d\<rparr>) = comparePoses_try t c config"
  by (simp add: comparePoses_try_def normalizePose_distanceThreshold
      detectVisibleRegions_distanceThreshold compareAnglesOnly_distanceThreshold
      blendAngles_distanceThreshold Let_def split: sum.splits prod.splits)

lemma mergeConfig_distanceThreshold:
  "mergeConfig (Some (cfg\<lparr>distanceThreshold_opt := d\<rparr>)) =
   (mergeConfig (Some cfg))
     \<lparr>distanceThreshold := mergeNumber d (distanceThreshold DEFAULT_CONFIG)\<rparr>"
  by (simp add: mergeConfig_def)

text \<open>
  Claim C4. Two configurations that differ only in \<open>distanceThreshold\<close> (set to any
  value, or left out) give the same outcome of \<open>comparePoses\<close> on every pair of poses.
\<close>

theorem distanceThreshold_unused:
  "comparePoses t c (Some (cfg\<lparr>distanceThreshold_opt := d\<rparr>)) =
   comparePoses t c (Some (cfg\<lparr>distanceThreshold_opt := d'\<rparr>))"
  by (simp add: comparePoses_def Let_def mergeConfig_distanceThreshold
      comparePoses_try_distanceThreshold)

subsection \<open>Standard mode on poses that share a visible joint\<close>

lemma angleAt_ok:
  "a < length (landmarks pose) \<Longrightarrow> b < length (landmarks pose) \<Longrightarrow>
   c < length (landmarks pose) \<Longrightarrow> \<exists>v. angleAt pose a b c = Inr v"
  by (simp add: angleAt_def)

lemma anglesLoop_ok:
  assumes "\<forall>i \<in> set (visibleLandmarkIndices tp). i < length (landmarks tp)"
      and "\<forall>i \<in> set (visibleLandmarkIndices cp). i < length (landmarks cp)"
  shows "\<exists>as. anglesLoop tp cp ts = Inr as \<and>
           (as \<noteq> [] \<longleftrightarrow>
              (\<exists>(a, b, c) \<in> set ts. tripleVisible tp a b c \<and> tripleVisible cp a b c))"
proof (induction ts)
  case Nil
  then show ?case by simp
next
  case (Cons tr ts)
  obtain a b c where tr: "tr = (a, b, c)" by (cases tr)
  from Cons obtain as where as: "anglesLoop tp cp ts = Inr as"
    and iff: "as \<noteq> [] \<longleftrightarrow>
              (\<exists>(a, b, c) \<in> set ts. tripleVisible tp a b c \<and> tripleVisible cp a b c)"
    by blast
  show ?case
  proof (cases "tripleVisible tp a b c \<and> tripleVisible cp a b c")
    case False
    then show ?thesis using as iff tr by auto
  next
    case True
    then obtain s t where "angleAt tp a b c = Inr s" "angleAt cp a b c = Inr t"
      using assms angleAt_ok [of a tp b c] angleAt_ok [of a cp b c]
      by (auto simp: tripleVisible_def)
    then show ?thesis using True as tr by (auto simp: Let_def)
  qed
qed

lemma computeDistanceFeatures_ok:
  assumes "\<forall>i \<in> set (visibleLandmarkIndices tp). i < length (landmarks tp)"
      and "\<forall>i \<in> set (visibleLandmarkIndices cp). i < length (landmarks cp)"
  shows "computeDistanceFeatures tp cp =
         Inr (map (\<lambda>i. distance (landmarks tp ! i) (landmarks cp ! i))
                (filter (\<lambda>idx. idx \<in> set (visibleLandmarkIndices cp))
                   (visibleLandmarkIndices tp)),
              length (filter (\<lambda>idx. idx \<in> set (visibleLandmarkIndices cp))
                   (visibleLandmarkIndices tp)))"
proof -
  have "\<forall>i \<in> set (filter (\<lambda>idx. idx \<in> set (visibleLandmarkIndices cp))
                   (visibleLandmarkIndices tp)).
          i < length (landmarks tp) \<and> i < length (landmarks cp)"
    using assms by simp
  from distancesLoop_ok [OF this] show ?thesis
    by (simp add: computeDistanceFeatures_def Let_def)
qed

lemma blendAngles_ok:
  assumes "\<forall>i \<in> set (visibleLandmarkIndices tp). i < length (landmarks tp)"
      and "\<forall>i \<in> set (visibleLandmarkIndices cp). i < length (landmarks cp)"
  shows "\<exists>s. blendAngles tp cp config m = Inr s"
proof -
  obtain as where "anglesLoop tp cp jointTriples = Inr as"
    using anglesLoop_ok [OF assms] by blast
  then show ?thesis
    by (simp add: blendAngles_def computeAngleFeatures_def Let_def)
qed

lemma blendAngles_plain:
  "\<not> useAngles config \<Longrightarrow>
   blendAngles tp cp config m = Inr (Math_max (Fin 0) (Fin 1 - m))"
  by (simp add: blendAngles_def)

lemma comparePoses_try_standard:
  assumes mode: "\<not> angleOnly config"
      and tp: "normalizePose t config = Inr tp"
      and cp: "normalizePose c config = Inr cp"
      and common: "filter (\<lambda>idx. idx \<in> set (filterVisibleLandmarks c config))
                     (filterVisibleLandmarks t config) \<noteq> []"
  shows "\<exists>s rd.
           blendAngles tp cp config
             (meanOf (map (\<lambda>i. distance (landmarks tp ! i) (landmarks cp ! i))
                (filter (\<lambda>idx. idx \<in> set (filterVisibleLandmarks c config))
                   (filterVisibleLandmarks t config)))) = Inr s \<and>
           comparePoses_try t c config =
           Inr \<lparr> isMatching = s \<ge> similarityThreshold config,
                 similarity = Math_max (Fin 0) (Math_min (Fin 1) s),
                 landmarksCompared = length (filterVisibleLandmarks t config),
                 validLandmarks =
                   length (filter (\<lambda>idx. idx \<in> set (filterVisibleLandmarks c config))
                     (filterVisibleLandmarks t config)),
                 meanDistance =
                   meanOf (map (\<lambda>i. distance (landmarks tp ! i) (landmarks cp ! i))
                     (filter (\<lambda>idx. idx \<in> set (filterVisibleLandmarks c config))
                        (filterVisibleLandmarks t config))),
                 comparedRegions =
                   filter (\<lambda>r. r \<in> set (detectVisibleRegions (landmarks cp) config))
                     (detectVisibleRegions (landmarks tp) config),
                 regionDistances = Some rd \<rparr>"
proof -
  have wt: "\<forall>i \<in> set (visibleLandmarkIndices tp). i < length (landmarks tp)"
    using normalizePose_bound [OF tp] by blast
  have wc: "\<forall>i \<in> set (visibleLandmarkIndices cp). i < length (landmarks cp)"
    using normalizePose_bound [OF cp] by blast
  have vt: "visibleLandmarkIndices tp = filterVisibleLandmarks t config"
    using tp by (rule normalizePose_Inr)
  have vc: "visibleLandmarkIndices cp = filterVisibleLandmarks c config"
    using cp by (rule normalizePose_Inr)
  let ?common = "filter (\<lambda>idx. idx \<in> set (filterVisibleLandmarks c config))
                   (filterVisibleLandmarks t config)"
  let ?ds = "map (\<lambda>i. distance (landmarks tp ! i) (landmarks cp ! i)) ?common"
  have df: "computeDistanceFeatures tp cp = Inr (?ds, length ?common)"
    using computeDistanceFeatures_ok [OF wt wc] by (simp add: vt vc)
  obtain s where s: "blendAngles tp cp config (meanOf ?ds) = Inr s"
    using blendAngles_ok [OF wt wc] by blast
  obtain rd where rd: "regionDistancesLoop tp cp
      (filter (\<lambda>r. r \<in> set (detectVisibleRegions (landmarks cp) config))
         (detectVisibleRegions (landmarks tp) config)) Map.empty = Inr rd"
    using regionDistancesLoop_ok [OF wt wc] by blast
  have "comparePoses_try t c config =
           Inr \<lparr> isMatching = s \<ge> similarityThreshold config,
                 similarity = Math_max (Fin 0) (Math_min (Fin 1) s),
                 landmarksCompared = length (filterVisibleLandmarks t config),
                 validLandmarks = length ?common,
                 meanDistance = meanOf ?ds,
                 comparedRegions =
                   filter (\<lambda>r. r \<in> set (detectVisibleRegions (landmarks cp) config))
                     (detectVisibleRegions (landmarks tp) config),
                 regionDistances = Some rd \<rparr>"
    using mode common by (simp add: comparePoses_try_def tp cp df s rd Let_def vt)
  with s show ?thesis by blast
qed

lemma compareAnglesOnly_try_no_breakdown:
  "compareAnglesOnly_try t c config = Inr r \<Longrightarrow>
   regionDistances r = None \<and> validLandmarks r = landmarksCompared r"
  by (auto simp: compareAnglesOnly_try_def degenerateResult_def Let_def
      split: sum.splits prod.splits if_splits)

lemma compareAnglesOnly_no_breakdown:
  "regionDistances (compareAnglesOnly t c config) = None \<and>
   validLandmarks (compareAnglesOnly t c config) = landmarksCompared (compareAnglesOnly t c config)"
  using compareAnglesOnly_try_no_breakdown [of t c config]
  by (auto simp: compareAnglesOnly_def degenerateResult_def split: sum.splits)

lemma filterVisibleLandmarks_nonempty:
  assumes "\<exists>l \<in> set lms. visibilityThreshold config \<le> orDefault (visibility l) (Fin 1)"
  shows "filterVisibleLandmarks lms config \<noteq> []"
proof -
  from assms obtain i where "i < length lms"
    "visibilityThreshold config \<le> orDefault (visibility (lms ! i)) (Fin 1)"
    by (auto simp: in_set_conv_nth)
  then have "i \<in> set (filterVisibleLandmarks lms config)"
    by (simp add: filterVisibleLandmarks_iff)
  then show ?thesis by auto
qed

lemma filter_mem_self: "filter (\<lambda>i. i \<in> set xs) xs = xs"
  by simp

lemma comparePoses_nonempty_standard:
  assumes mode: "\<not> angleOnly (mergeConfig config)"
      and common: "filter (\<lambda>idx. idx \<in> set (filterVisibleLandmarks c (mergeConfig config)))
                     (filterVisibleLandmarks t (mergeConfig config)) \<noteq> []"
  shows "t \<noteq> [] \<and> c \<noteq> [] \<and>
         (\<exists>tp cp. normalizePose t (mergeConfig config) = Inr tp \<and>
                  normalizePose c (mergeConfig config) = Inr cp)"
proof -
  obtain i where i: "i \<in> set (filterVisibleLandmarks t (mergeConfig config))"
      "i \<in> set (filterVisibleLandmarks c (mergeConfig config))"
    using common by (auto simp: filter_empty_conv)
  then have "i < length t" "i < length c"
    by (simp_all add: filterVisibleLandmarks_bound)
  moreover have "filterVisibleLandmarks t (mergeConfig config) \<noteq> []"
      "filterVisibleLandmarks c (mergeConfig config) \<noteq> []"
    using i by auto
  ultimately show ?thesis
    using normalizePose_ok by auto
qed

lemma filterVisibleLandmarks_all:
  "\<forall>l \<in> set lms. visibilityThreshold config \<le> orDefault (visibility l) (Fin 1) \<Longrightarrow>
   filterVisibleLandmarks lms config = [0..<length lms]"
  by (simp add: filterVisibleLandmarks_eq filter_id_conv)

lemma filterVisibleLandmarks_snoc:
  "filterVisibleLandmarks (lms @ [l]) config =
   filterVisibleLandmarks lms config @
   (if visibilityThreshold config \<le> orDefault (visibility l) (Fin 1) then [length lms] else [])"
proof -
  have "filter (\<lambda>i. visibilityThreshold config \<le> orDefault (visibility ((lms @ [l]) ! i)) (Fin 1))
          [0..<length lms] =
        filter (\<lambda>i. visibilityThreshold config \<le> orDefault (visibility (lms ! i)) (Fin 1))
          [0..<length lms]"
    by (intro filter_cong) (simp_all add: nth_append)
  then show ?thesis
    by (simp add: filterVisibleLandmarks_eq)
qed

lemma allVisible_filter: "filterVisibleLandmarks allVisible (mergeConfig None) = [0..<33]"
  using filterVisibleLandmarks_all [of allVisible "mergeConfig None"]
  by (simp add: allVisible_def joint_def DEFAULT_CONFIG_def orDefault_def)

lemma lastHidden_filter: "filterVisibleLandmarks lastHidden (mergeConfig None) = [0..<32]"
  using filterVisibleLandmarks_all [of "replicate 32 (joint 0.5 0.5 1)" "mergeConfig None"]
  by (simp add: lastHidden_def filterVisibleLandmarks_snoc joint_def DEFAULT_CONFIG_def
      orDefault_def)

lemma common_32_33: "length (filter (\<lambda>i. i \<in> set [0..<32]) [0..<33]) = 32"
  by code_simp

lemma common_33_32: "length (filter (\<lambda>i. i \<in> set [0..<33]) [0..<32]) = 32"
  by code_simp

lemma comparePoses_standard_counts:
  assumes mode: "\<not> angleOnly (mergeConfig config)"
      and shared: "\<exists>i. i \<in> set (filterVisibleLandmarks t (mergeConfig config)) \<and>
                      i \<in> set (filterVisibleLandmarks c (mergeConfig config))"
  shows "\<exists>r rd. comparePoses t c config = Inr r \<and>
             landmarksCompared r = length (filterVisibleLandmarks t (mergeConfig config)) \<and>
             validLandmarks r =
               length (filter (\<lambda>idx. idx \<in> set (filterVisibleLandmarks c (mergeConfig config)))
                 (filterVisibleLandmarks t (mergeConfig config))) \<and>
             regionDistances r = Some rd"
proof -
  have common: "filter (\<lambda>idx. idx \<in> set (filterVisibleLandmarks c (mergeConfig config)))
                     (filterVisibleLandmarks t (mergeConfig config)) \<noteq> []"
    using shared by (auto simp: filter_empty_conv)
  from comparePoses_nonempty_standard [OF mode common]
  obtain tp cp where ne: "t \<noteq> []" "c \<noteq> []"
    and tp: "normalizePose t (mergeConfig config) = Inr tp"
    and cp: "normalizePose c (mergeConfig config) = Inr cp"
    by auto
  from comparePoses_try_standard [OF mode tp cp common] ne show ?thesis
    by (auto simp: comparePoses_def Let_def)
qed

lemma default_standard: "\<not> angleOnly (mergeConfig None)"
  by (simp add: DEFAULT_CONFIG_def)

lemma allVisible_lastHidden_counts:
  "\<exists>r. comparePoses allVisible lastHidden None = Inr r \<and>
       landmarksCompared r = 33 \<and> validLandmarks r = 32"
proof -
  have "\<exists>i. i \<in> set (filterVisibleLandmarks allVisible (mergeConfig None)) \<and>
            i \<in> set (filterVisibleLandmarks lastHidden (mergeConfig None))"
    unfolding allVisible_filter lastHidden_filter by (intro exI [of _ 0]) simp
  from comparePoses_standard_counts [OF default_standard this] show ?thesis
    unfolding allVisible_filter lastHidden_filter common_32_33 by auto
qed

lemma lastHidden_allVisible_counts:
  "\<exists>r. comparePoses lastHidden allVisible None = Inr r \<and>
       landmarksCompared r = 32 \<and> validLandmarks r = 32"
proof -
  have "\<exists>i. i \<in> set (filterVisibleLandmarks lastHidden (mergeConfig None)) \<and>
            i \<in> set (filterVisibleLandmarks allVisible (mergeConfig None))"
    unfolding allVisible_filter lastHidden_filter by (intro exI [of _ 0]) simp
  from comparePoses_standard_counts [OF default_standard this] show ?thesis
    unfolding allVisible_filter lastHidden_filter common_33_32 by auto
qed

lemma scenarioA_length [simp]: "length scenarioA = 33"
  by (simp add: scenarioA_def)

lemma scenarioA_nose: "scenarioA ! 0 = joint 0.5 0.5 1"
  by (simp add: scenarioA_def PoseLandmarkIndex_defs)

lemma scenarioA_visible_nose: "0 \<in> set (filterVisibleLandmarks scenarioA (mergeConfig None))"
  by (simp add: filterVisibleLandmarks_iff scenarioA_nose joint_def DEFAULT_CONFIG_def
      orDefault_def)

subsection \<open>Raising and returning\<close>




subsection \<open>Region breakdown\<close>

lemma regionValsLoop_nonempty:
  "regionValsLoop tp cp idxs = Inr vs \<Longrightarrow>
   (vs \<noteq> [] \<longleftrightarrow>
    (\<exists>idx \<in> set idxs. idx \<in> set (visibleLandmarkIndices tp) \<and>
                        idx \<in> set (visibleLandmarkIndices cp)))"
  by (induction idxs arbitrary: vs) (auto split: if_splits sum.splits)

lemma regionDistancesLoop_dom_eq:
  "regionDistancesLoop tp cp regions rd = Inr rd' \<Longrightarrow>
   dom rd' = dom rd \<union>
     {region \<in> set regions.
        \<exists>idx \<in> set (regionIndices region).
          idx \<in> set (visibleLandmarkIndices tp) \<and> idx \<in> set (visibleLandmarkIndices cp)}"
proof (induction regions arbitrary: rd)
  case Nil
  then show ?case by simp
next
  case (Cons region regions)
  from Cons.prems obtain vs where vs: "regionValsLoop tp cp (regionIndices region) = Inr vs"
    and rest: "regionDistancesLoop tp cp regions
                 (if length vs > 0 then rd(region \<mapsto> meanOf vs) else rd) = Inr rd'"
    by (auto split: sum.splits)
  note ne = regionValsLoop_nonempty [OF vs]
  let ?S = "{region \<in> set regions.
        \<exists>idx \<in> set (regionIndices region).
          idx \<in> set (visibleLandmarkIndices tp) \<and> idx \<in> set (visibleLandmarkIndices cp)}"
  show ?case
  proof (cases "vs = []")
    case True
    with rest have "regionDistancesLoop tp cp regions rd = Inr rd'" by simp
    from Cons.IH [OF this] have "dom rd' = dom rd \<union> ?S" .
    moreover have "\<not> (\<exists>idx \<in> set (regionIndices region).
          idx \<in> set (visibleLandmarkIndices tp) \<and> idx \<in> set (visibleLandmarkIndices cp))"
      using ne True by simp
    ultimately show ?thesis by auto
  next
    case False
    with rest have "regionDistancesLoop tp cp regions (rd(region \<mapsto> meanOf vs)) = Inr rd'"
      by simp
    note ih = Cons.IH [OF this]
    have "dom (rd(region \<mapsto> meanOf vs)) = insert region (dom rd)"
      by (simp only: dom_fun_upd option.simps if_False)
    with ih have "dom rd' = insert region (dom rd) \<union> ?S" by (simp only:)
    moreover have "\<exists>idx \<in> set (regionIndices region).
          idx \<in> set (visibleLandmarkIndices tp) \<and> idx \<in> set (visibleLandmarkIndices cp)"
      using ne False by simp
    ultimately show ?thesis by auto
  qed
qed

lemma comparePoses_try_breakdown:
  assumes "comparePoses_try t c config = Inr r" and "regionDistances r = Some rd"
  shows "dom rd =
     {region \<in> set (comparedRegions r).
        \<exists>idx \<in> set (regionIndices region).
          idx \<in> set (filterVisibleLandmarks t config) \<and>
          idx \<in> set (filterVisibleLandmarks c config)}"
proof -
  have ao: "regionDistances (compareAnglesOnly t c config) = None"
    using compareAnglesOnly_no_breakdown by blast
  from assms ao obtain tp cp where tp: "normalizePose t config = Inr tp"
    and cp: "normalizePose c config = Inr cp"
    and loop: "regionDistancesLoop tp cp (comparedRegions r) Map.empty = Inr rd"
    by (auto simp: comparePoses_try_def degenerateResult_def Let_def
        split: sum.splits prod.splits if_splits)
  from regionDistancesLoop_dom_eq [OF loop] show ?thesis
    by (simp add: normalizePose_Inr(1) [OF tp] normalizePose_Inr(1) [OF cp])
qed

text \<open>
  Claim C8. In every result that \<open>comparePoses\<close> returns, each region that is a key of
  \<open>regionDistances\<close> is one of the \<open>comparedRegions\<close>; the keys are exactly the
  compared regions with at least one joint of the region that passes the visibility filter
  in both poses.
\<close>

theorem regionDistances_within_comparedRegions:
  assumes "comparePoses t c config = Inr r" and "regionDistances r = Some rd"
  shows "dom rd \<subseteq> set (comparedRegions r) \<and>
         dom rd =
           {region \<in> set (comparedRegions r).
              \<exists>idx \<in> set (regionIndices region).
                idx \<in> set (filterVisibleLandmarks t (mergeConfig config)) \<and>
                idx \<in> set (filterVisibleLandmarks c (mergeConfig config))}"
proof -
  from assms have "comparePoses_try t c (mergeConfig config) = Inr r"
    by (auto simp: comparePoses_def Let_def degenerateResult_def split: sum.splits if_splits)
  from comparePoses_try_breakdown [OF this assms(2)] show ?thesis
    by auto
qed

text \<open>Scenario A against itself returns a result with a region breakdown.\<close>

theorem regionDistances_within_comparedRegions_witness:
  "\<exists>r rd. comparePoses scenarioA scenarioA None = Inr r \<and> regionDistances r = Some rd \<and>
          dom rd \<subseteq> set (comparedRegions r)"
proof -
  have "\<exists>i. i \<in> set (filterVisibleLandmarks scenarioA (mergeConfig None)) \<and>
            i \<in> set (filterVisibleLandmarks scenarioA (mergeConfig None))"
    using scenarioA_visible_nose by blast
  from comparePoses_standard_counts [OF default_standard this]
  obtain r rd where r: "comparePoses scenarioA scenarioA None = Inr r"
    and rd: "regionDistances r = Some rd" by blast
  from regionDistances_within_comparedRegions [OF r rd] r rd show ?thesis by blast
qed

subsection \<open>What \<open>landmarksCompared\<close> counts\<close>

text \<open>
  Claim C10. In standard mode, when the two poses share a joint that passes the visibility
  filter in both, \<open>comparePoses\<close> returns a result whose \<open>landmarksCompared\<close> is the
  number of joints of the reference pose that pass the filter, while \<open>validLandmarks\<close> is
  the number of joints that pass it in both poses. So \<open>landmarksCompared\<close> can exceed
  \<open>validLandmarks\<close> (33 against 32 for \<open>allVisible\<close> and \<open>lastHidden\<close>), and it can
  change when the two poses are swapped (32 instead of 33).
\<close>

theorem landmarksCompared_counts_reference:
  assumes "\<not> angleOnly (mergeConfig config)"
      and "\<exists>i. i \<in> set (filterVisibleLandmarks t (mergeConfig config)) \<and>
               i \<in> set (filterVisibleLandmarks c (mergeConfig config))"
  shows "(\<exists>r. comparePoses t c config = Inr r \<and>
             landmarksCompared r = length (filterVisibleLandmarks t (mergeConfig config)) \<and>
             validLandmarks r =
               length (filter (\<lambda>idx. idx \<in> set (filterVisibleLandmarks c (mergeConfig config)))
                 (filterVisibleLandmarks t (mergeConfig config)))) \<and>
         (\<exists>r. comparePoses allVisible lastHidden None = Inr r \<and>
              landmarksCompared r = 33 \<and> validLandmarks r = 32) \<and>
         (\<exists>r. comparePoses lastHidden allVisible None = Inr r \<and> landmarksCompared r = 32)"
  using comparePoses_standard_counts [OF assms] allVisible_lastHidden_counts
    lastHidden_allVisible_counts
  by blast

text \<open>The instance \<open>allVisible\<close> against \<open>lastHidden\<close>, under the default configuration.\<close>

theorem landmarksCompared_counts_reference_witness:
  "\<exists>r. comparePoses allVisible lastHidden None = Inr r \<and>
       landmarksCompared r = 33 \<and> validLandmarks r = 32"
proof -
  have "\<exists>i. i \<in> set (filterVisibleLandmarks allVisible (mergeConfig None)) \<and>
            i \<in> set (filterVisibleLandmarks lastHidden (mergeConfig None))"
    unfolding allVisible_filter lastHidden_filter by (intro exI [of _ 0]) simp
  from landmarksCompared_counts_reference [OF default_standard this] show ?thesis
    unfolding allVisible_filter lastHidden_filter common_32_33 by blast
qed

subsection \<open>Angle at a vertex\<close>

text \<open>
  Claim C6 says that \<open>computeAngle\<close> returns a value in [0, 180] for every three finite
  points, and the comment of the function says the same. At the finite points
  \<open>a = (FAR, 0)\<close>, \<open>b = (0, 0)\<close>, \<open>c = (FAR, FAR)\<close>, where \<open>FAR\<close> is \<open>1e200\<close>, the products
  \<open>v1.x * v2.x\<close> and \<open>v1.x * v1.x\<close> are beyond the largest double: the dot product and both
  magnitudes are infinite, their quotient is NaN, the clamp by \<open>Math.max\<close> and \<open>Math.min\<close>
  keeps NaN, and the function returns NaN, which is no value of [0, 180].
\<close>

theorem computeAngle_overflow:
  "computeAngle (joint FAR 0 1) (joint 0 0 1) (joint FAR FAR 1) = NaN"
  by (simp add: computeAngle_def joint_def Let_def FAR_facts infinityOf_def Math_max_def
      Math_min_def)

subsection \<open>Per-limb normalization\<close>

lemma normalizeLandmarksByLimbs_nth:
  "idx < length lms \<Longrightarrow>
   normalizeLandmarksByLimbs lms ! idx =
   (let limbLength = getOr1 (limbLengthsLoop lms limbs Map.empty) idx
    in \<lparr> x = x (lms ! idx) / limbLength, y = y (lms ! idx) / limbLength,
         z = (case z (lms ! idx) of None \<Rightarrow> None | Some lz \<Rightarrow> Some (lz / limbLength)),
         visibility = visibility (lms ! idx) \<rparr>)"
  by (simp add: normalizeLandmarksByLimbs_def Let_def)

lemma limbLengthsLoop_other:
  "k \<notin> set (map fst ls) \<Longrightarrow> limbLengthsLoop lms ls m k = m k"
  by (induction ls arbitrary: m) (auto split: option.splits)

lemma limbLengths_full:
  assumes "29 \<le> length lms"
  shows "limbLengthsLoop lms limbs Map.empty =
    [LEFT_SHOULDER \<mapsto> Math_max (distance (lms ! LEFT_SHOULDER) (lms ! LEFT_ELBOW)) (Fin 0.01),
     LEFT_ELBOW \<mapsto> Math_max (distance (lms ! LEFT_ELBOW) (lms ! LEFT_WRIST)) (Fin 0.01),
     RIGHT_SHOULDER \<mapsto> Math_max (distance (lms ! RIGHT_SHOULDER) (lms ! RIGHT_ELBOW)) (Fin 0.01),
     RIGHT_ELBOW \<mapsto> Math_max (distance (lms ! RIGHT_ELBOW) (lms ! RIGHT_WRIST)) (Fin 0.01),
     LEFT_HIP \<mapsto> Math_max (distance (lms ! LEFT_HIP) (lms ! LEFT_KNEE)) (Fin 0.01),
     LEFT_KNEE \<mapsto> Math_max (distance (lms ! LEFT_KNEE) (lms ! LEFT_ANKLE)) (Fin 0.01),
     RIGHT_HIP \<mapsto> Math_max (distance (lms ! RIGHT_HIP) (lms ! RIGHT_KNEE)) (Fin 0.01),
     RIGHT_KNEE \<mapsto> Math_max (distance (lms ! RIGHT_KNEE) (lms ! RIGHT_ANKLE)) (Fin 0.01),
     LEFT_SHOULDER \<mapsto> Math_max (distance (lms ! LEFT_SHOULDER) (lms ! LEFT_HIP)) (Fin 0.01),
     RIGHT_SHOULDER \<mapsto> Math_max (distance (lms ! RIGHT_SHOULDER) (lms ! RIGHT_HIP)) (Fin 0.01)]"
proof -
  have "LEFT_SHOULDER < length lms" "LEFT_ELBOW < length lms" "LEFT_WRIST < length lms"
    "RIGHT_SHOULDER < length lms" "RIGHT_ELBOW < length lms" "RIGHT_WRIST < length lms"
    "LEFT_HIP < length lms" "LEFT_KNEE < length lms" "LEFT_ANKLE < length lms"
    "RIGHT_HIP < length lms" "RIGHT_KNEE < length lms" "RIGHT_ANKLE < length lms"
    using assms by (simp_all add: PoseLandmarkIndex_defs)
  then show ?thesis
    by (simp add: limbs_def)
qed

lemma wristOut_facts:
  "length wristOut = 33"
  "wristOut ! LEFT_WRIST = joint 2 0 1"
  "wristOut ! LEFT_ELBOW = joint 0 0 1"
  by (simp_all add: wristOut_def PoseLandmarkIndex_defs)

lemma wristOut_forearm: "distance (joint 0 0 1) (joint 2 0 1) = Fin 2"
  by (simp add: distance_def joint_def orDefault_def)

lemma limbLengths_keys:
  assumes "29 \<le> length lms"
  shows "limbLengthsLoop lms limbs Map.empty LEFT_SHOULDER =
           Some (Math_max (distance (lms ! LEFT_SHOULDER) (lms ! LEFT_HIP)) (Fin 0.01))"
    and "limbLengthsLoop lms limbs Map.empty LEFT_ELBOW =
           Some (Math_max (distance (lms ! LEFT_ELBOW) (lms ! LEFT_WRIST)) (Fin 0.01))"
  unfolding limbLengths_full [OF assms]
  by (simp_all add: PoseLandmarkIndex_defs)

lemma wristOut_elbow_length:
  "limbLengthsLoop wristOut limbs Map.empty LEFT_ELBOW = Some (Fin 2)"
proof -
  have "29 \<le> length wristOut" by (simp add: wristOut_facts)
  from limbLengths_keys(2) [OF this] show ?thesis
    unfolding wristOut_facts(2,3) wristOut_forearm by (simp add: Math_max_def)
qed

lemma wristOut_wrist_length:
  "limbLengthsLoop wristOut limbs Map.empty LEFT_WRIST = None"
proof -
  have "LEFT_WRIST \<notin> set (map fst limbs)"
    by (simp add: limbs_def PoseLandmarkIndex_defs)
  from limbLengthsLoop_other [OF this, of wristOut Map.empty] show ?thesis by simp
qed

text \<open>
  Claim C3 says that each joint is rescaled by the length of its owning limb, and the
  comment of \<open>normalizeLandmarksByLimbs\<close> that each limb is normalized by its own length.
  The lengths are kept in a map from the index where a limb starts, so a joint where a limb
  only ends has no entry and is divided by 1. In the pose \<open>wristOut\<close> the left forearm, from
  the elbow at (0, 0) to the wrist at (2, 0), has length 2; the function divides the elbow
  by 2 and leaves the wrist at (2, 0), so that the forearm has length 2 afterwards as well,
  where division of the wrist by the length of its limb would give (1, 0).
\<close>

theorem forearm_not_normalized:
  "distance (wristOut ! LEFT_ELBOW) (wristOut ! LEFT_WRIST) = Fin 2 \<and>
   normalizeLandmarksByLimbs wristOut ! LEFT_ELBOW = joint 0 0 1 \<and>
   normalizeLandmarksByLimbs wristOut ! LEFT_WRIST = joint 2 0 1 \<and>
   distance (normalizeLandmarksByLimbs wristOut ! LEFT_ELBOW)
     (normalizeLandmarksByLimbs wristOut ! LEFT_WRIST) = Fin 2"
proof -
  have lt: "LEFT_ELBOW < length wristOut" "LEFT_WRIST < length wristOut"
    by (simp_all add: wristOut_facts(1) PoseLandmarkIndex_defs)
  have elbow: "normalizeLandmarksByLimbs wristOut ! LEFT_ELBOW = joint 0 0 1"
    unfolding normalizeLandmarksByLimbs_nth [OF lt(1)] wristOut_facts(3)
    by (simp add: wristOut_elbow_length getOr1_def truthy_def joint_def)
  have wrist: "normalizeLandmarksByLimbs wristOut ! LEFT_WRIST = joint 2 0 1"
    unfolding normalizeLandmarksByLimbs_nth [OF lt(2)] wristOut_facts(2)
    by (simp add: wristOut_wrist_length getOr1_def joint_def)
  show ?thesis
    unfolding elbow wrist wristOut_facts(2,3) using wristOut_forearm by simp
qed

subsection \<open>Angle-only mode on a far joint\<close>

lemma angleOnly_merged:
  "mergeConfig (Some angleOnlyConfig) = DEFAULT_CONFIG\<lparr>angleOnly := True\<rparr>"
  by (simp add: mergeConfig_def angleOnlyConfig_def mergeNumber_def mergeBoolean_def
      DEFAULT_CONFIG_def)

lemma kneeFar_length [simp]: "length kneeFar = 33"
  by (simp add: kneeFar_def)

lemma kneeFar_nth:
  "kneeFar ! LEFT_SHOULDER = joint 0 1 1" "kneeFar ! RIGHT_SHOULDER = joint 0 1 1"
  "kneeFar ! LEFT_ELBOW = joint 0 0 1" "kneeFar ! RIGHT_ELBOW = joint 0 0 1"
  "kneeFar ! LEFT_WRIST = joint 0 0 1" "kneeFar ! RIGHT_WRIST = joint 0 0 1"
  "kneeFar ! LEFT_HIP = joint 0 0 1" "kneeFar ! RIGHT_HIP = joint 0 0 1"
  "kneeFar ! LEFT_KNEE = joint FAR 0 1" "kneeFar ! RIGHT_KNEE = joint 0 0 1"
  "kneeFar ! LEFT_ANKLE = joint 0 0 1" "kneeFar ! RIGHT_ANKLE = joint 0 0 1"
  by (simp_all add: kneeFar_def PoseLandmarkIndex_defs)

lemma index_bounds:
  "NOSE < 33" "LEFT_SHOULDER < 33" "RIGHT_SHOULDER < 33" "LEFT_ELBOW < 33" "RIGHT_ELBOW < 33"
  "LEFT_WRIST < 33" "RIGHT_WRIST < 33" "LEFT_HIP < 33" "RIGHT_HIP < 33"
  "LEFT_KNEE < 33" "RIGHT_KNEE < 33" "LEFT_ANKLE < 33" "RIGHT_ANKLE < 33"
  by (simp_all add: PoseLandmarkIndex_defs)

lemma kneeFar_cases:
  "i < 33 \<Longrightarrow> kneeFar ! i = joint 0 0 1 \<or> kneeFar ! i = joint 0 1 1 \<or> kneeFar ! i = joint FAR 0 1"
  by (simp add: kneeFar_def nth_list_update PoseLandmarkIndex_defs)

lemma kneeFar_visible:
  "filterVisibleLandmarks kneeFar (DEFAULT_CONFIG\<lparr>angleOnly := True\<rparr>) = [0..<33]"
proof -
  have "visibilityThreshold (DEFAULT_CONFIG\<lparr>angleOnly := True\<rparr>)
          \<le> orDefault (visibility (kneeFar ! i)) (Fin 1)" if "i < 33" for i
    using kneeFar_cases [OF that] by (auto simp: DEFAULT_CONFIG_def joint_def orDefault_def)
  then have "\<forall>l \<in> set kneeFar.
          visibilityThreshold (DEFAULT_CONFIG\<lparr>angleOnly := True\<rparr>) \<le> orDefault (visibility l) (Fin 1)"
    unfolding all_set_conv_all_nth by simp
  from filterVisibleLandmarks_all [OF this] show ?thesis by simp
qed

lemma kneeFar_origin:
  "computeOrigin kneeFar vis = Inr \<lparr>x = Fin 0, y = Fin 0, z = None, visibility = None\<rparr>"
  by (simp add: computeOrigin_def Let_def index_bounds kneeFar_nth anchorOk_def
      midpoint_def joint_def orDefault_def)

lemma kneeFar_scale: "computeScale kneeFar vis = Inr (Fin 1)"
  by (simp add: computeScale_def Let_def index_bounds kneeFar_nth anchorOk_def
      midpoint_def distance_def Math_max_def joint_def orDefault_def)

lemma kneeFar_fixed:
  "map (\<lambda>lm. \<lparr>x = (x lm - Fin 0) / Fin 1, y = (y lm - Fin 0) / Fin 1,
               z = (case z lm of None \<Rightarrow> None | Some lz \<Rightarrow> Some (lz / Fin 1)),
               visibility = visibility lm\<rparr>) kneeFar = kneeFar"
proof (intro nth_equalityI)
  show "length (map (\<lambda>lm. \<lparr>x = (x lm - Fin 0) / Fin 1, y = (y lm - Fin 0) / Fin 1,
               z = (case z lm of None \<Rightarrow> None | Some lz \<Rightarrow> Some (lz / Fin 1)),
               visibility = visibility lm\<rparr>) kneeFar) = length kneeFar"
    by simp
next
  fix i
  assume "i < length (map (\<lambda>lm. \<lparr>x = (x lm - Fin 0) / Fin 1, y = (y lm - Fin 0) / Fin 1,
               z = (case z lm of None \<Rightarrow> None | Some lz \<Rightarrow> Some (lz / Fin 1)),
               visibility = visibility lm\<rparr>) kneeFar)"
  then have i: "i < 33" by simp
  from kneeFar_cases [OF i]
  show "map (\<lambda>lm. \<lparr>x = (x lm - Fin 0) / Fin 1, y = (y lm - Fin 0) / Fin 1,
               z = (case z lm of None \<Rightarrow> None | Some lz \<Rightarrow> Some (lz / Fin 1)),
               visibility = visibility lm\<rparr>) kneeFar ! i = kneeFar ! i"
    using i by (auto simp: joint_def FAR_facts)
qed

lemma kneeFar_normalized:
  "normalizePose kneeFar (DEFAULT_CONFIG\<lparr>angleOnly := True\<rparr>) =
   Inr \<lparr>landmarks = kneeFar,
        origin = \<lparr>x = Fin 0, y = Fin 0, z = None, visibility = None\<rparr>,
        scale = Fin 1,
        visibleLandmarkIndices = [0..<33]\<rparr>"
proof -
  have "\<not> perLimbNormalization (DEFAULT_CONFIG\<lparr>angleOnly := True\<rparr>)"
    by (simp add: DEFAULT_CONFIG_def)
  with kneeFar_fixed show ?thesis
    by (simp add: normalizePose_def Let_def kneeFar_visible kneeFar_origin kneeFar_scale)
qed

lemma kneeFar_angles:
  "computeAngle (joint 0 1 1) (joint 0 0 1) (joint 0 0 1) = Fin 0"
  "computeAngle (joint 0 0 1) (joint FAR 0 1) (joint 0 0 1) = NaN"
  "computeAngle (joint 0 0 1) (joint 0 0 1) (joint 0 0 1) = Fin 0"
  "computeAngle (joint 0 1 1) (joint 0 0 1) (joint FAR 0 1) = Fin 90"
  using degrees_small
  by (simp_all add: computeAngle_def joint_def Let_def FAR_facts infinityOf_def Math_max_def
      Math_min_def)

lemma kneeFar_angleAt:
  "angleAt kneeFarPose LEFT_SHOULDER LEFT_ELBOW LEFT_WRIST = Inr (Fin 0)"
  "angleAt kneeFarPose RIGHT_SHOULDER RIGHT_ELBOW RIGHT_WRIST = Inr (Fin 0)"
  "angleAt kneeFarPose LEFT_HIP LEFT_KNEE LEFT_ANKLE = Inr NaN"
  "angleAt kneeFarPose RIGHT_HIP RIGHT_KNEE RIGHT_ANKLE = Inr (Fin 0)"
  "angleAt kneeFarPose LEFT_SHOULDER LEFT_HIP LEFT_KNEE = Inr (Fin 90)"
  "angleAt kneeFarPose RIGHT_SHOULDER RIGHT_HIP RIGHT_KNEE = Inr (Fin 0)"
  by (simp_all add: angleAt_def kneeFarPose_def index_bounds kneeFar_nth kneeFar_angles)

lemma kneeFar_tripleVisible:
  "tripleVisible kneeFarPose LEFT_SHOULDER LEFT_ELBOW LEFT_WRIST"
  "tripleVisible kneeFarPose RIGHT_SHOULDER RIGHT_ELBOW RIGHT_WRIST"
  "tripleVisible kneeFarPose LEFT_HIP LEFT_KNEE LEFT_ANKLE"
  "tripleVisible kneeFarPose RIGHT_HIP RIGHT_KNEE RIGHT_ANKLE"
  "tripleVisible kneeFarPose LEFT_SHOULDER LEFT_HIP LEFT_KNEE"
  "tripleVisible kneeFarPose RIGHT_SHOULDER RIGHT_HIP RIGHT_KNEE"
  by (simp_all add: tripleVisible_def kneeFarPose_def index_bounds)

lemma kneeFar_features:
  "computeAngleFeatures kneeFarPose kneeFarPose =
   Inr ([Fin 0, Fin 0, NaN, Fin 0, Fin 0, Fin 0], 6)"
  by (simp add: computeAngleFeatures_def jointTriples_def kneeFar_tripleVisible kneeFar_angleAt
      Math_min_def Let_def)

lemma kneeFar_mean: "meanOf [Fin 0, Fin 0, NaN, Fin 0, Fin 0, Fin 0] = NaN"
  by (simp add: meanOf_def)

lemma kneeFar_regions:
  "detectVisibleRegions kneeFar (DEFAULT_CONFIG\<lparr>angleOnly := True\<rparr>) =
   [upper, lower, left_arm, right_arm]"
  by (simp add: detectVisibleRegions_def isVisible_def index_bounds kneeFar_nth joint_def
      orDefault_def DEFAULT_CONFIG_def)

text \<open>
  Claim C9 says that every normalized angle difference is in [0, 0.5], so that in
  angle-only mode the similarity is at least 0.5 and \<open>isMatching\<close> is true whenever a joint
  triple is comparable. The pose \<open>kneeFar\<close>, 33 visible joints with finite coordinates,
  compared with itself under \<open>{ angleOnly: true }\<close>: all six triples are comparable, the
  angle at the left knee is NaN (as in claim C6, the squares of \<open>1e200\<close> are infinite), so
  the third angle difference is NaN, and so are the mean and the similarity, which
  \<open>Math.max(0, Math.min(1, similarity))\<close> does not bring back into [0, 1]; the comparison
  \<open>similarity >= 0.5\<close> is false.
\<close>

theorem angleOnly_overflow:
  "comparePoses kneeFar kneeFar (Some angleOnlyConfig) =
   Inr \<lparr>isMatching = False, similarity = NaN, landmarksCompared = 6, validLandmarks = 6,
        meanDistance = NaN, comparedRegions = [upper, lower, left_arm, right_arm],
        regionDistances = None\<rparr>"
proof -
  have "kneeFar \<noteq> []" by (simp add: kneeFar_def)
  moreover have "angleOnly (DEFAULT_CONFIG\<lparr>angleOnly := True\<rparr>)" by simp
  moreover have "compareAnglesOnly_try kneeFar kneeFar (DEFAULT_CONFIG\<lparr>angleOnly := True\<rparr>) =
    Inr \<lparr>isMatching = False, similarity = NaN, landmarksCompared = 6, validLandmarks = 6,
        meanDistance = NaN, comparedRegions = [upper, lower, left_arm, right_arm],
        regionDistances = None\<rparr>"
  proof -
    have pose: "normalizePose kneeFar (DEFAULT_CONFIG\<lparr>angleOnly := True\<rparr>) = Inr kneeFarPose"
      by (simp add: kneeFar_normalized kneeFarPose_def)
    have lms: "landmarks kneeFarPose = kneeFar" by (simp add: kneeFarPose_def)
    have thr: "similarityThreshold (DEFAULT_CONFIG\<lparr>angleOnly := True\<rparr>) = Fin 0.5"
      by (simp add: DEFAULT_CONFIG_def)
    show ?thesis
      by (simp add: compareAnglesOnly_try_def pose kneeFar_features kneeFar_mean Let_def lms
          thr kneeFar_regions Math_max_def Math_min_def)
  qed
  ultimately show ?thesis
    by (simp add: comparePoses_def Let_def angleOnly_merged comparePoses_try_def
        compareAnglesOnly_def)
qed

end
